theory Spec2Isabelle
  imports Complex_Main "HOL-Library.Word" "HOL-Library.Multiset"
begin

section \<open>Python values shared by the models\<close>

text \<open>
  Exceptions of the Python source are values: every \<open>raise\<close> of the modelled functions is
  a branch returning \<open>Inl\<close> of one of these. The string carries the exception's message
  where the source builds one.
\<close>

datatype error =
    TypeError string
  | FileNotFoundError string
  | NotImplementedError string
  | AttributeError string
  | RuntimeError string
  | ValueError string
  | IndexError string
  | ZeroDivisionError string
  | IsADirectoryError string

text \<open>Python's \<open>str(n)\<close> on an integer: decimal digits, a leading minus sign when negative.\<close>

fun str_nat :: "nat \<Rightarrow> string" where
  "str_nat n =
     (if n < 10 then [''0123456789'' ! n]
      else str_nat (n div 10) @ [''0123456789'' ! (n mod 10)])"

declare str_nat.simps [simp del]

definition str_int :: "int \<Rightarrow> string" where
  "str_int i = (if i < 0 then ''-'' @ str_nat (nat (- i)) else str_nat (nat i))"

section \<open>The raw network: \<open>_Model.define_classifier\<close>\<close>

text \<open>
  The fields \<open>_Model.__init__\<close> stores on the module. The four sizes default to \<open>0\<close>;
  \<open>num_classes\<close> defaults to \<open>None\<close>. The layers of \<open>torch.nn\<close> are described by their
  constructor arguments: \<open>Linear i o\<close> is the module \<open>nn.Linear(i, o)\<close> has built.
\<close>

record config =
  conv_depth :: int
  conv_dim :: int
  fc_depth :: int
  fc_dim :: int
  num_classes :: "int option"

datatype layer = Linear int int | ReLU | Dropout

datatype classifier = Identity | Sequential "(string \<times> layer) list"

text \<open>
  The constructor \<open>nn.Linear(in_features, out_features)\<close> allocates the weight with
  \<open>torch.empty((out_features, in_features))\<close>: a size that is \<open>None\<close> is refused with
  \<open>TypeError\<close> when the arguments are parsed, a negative size with \<open>RuntimeError\<close>. A size of
  zero builds an empty layer.
\<close>

definition nn_Linear :: "int option \<Rightarrow> int option \<Rightarrow> error + layer" where
  "nn_Linear in_features out_features =
     (case in_features of
        None \<Rightarrow> Inl (TypeError ''empty() received an invalid combination of arguments'')
      | Some n_in \<Rightarrow>
          (case out_features of
             None \<Rightarrow> Inl (TypeError ''empty() received an invalid combination of arguments'')
           | Some n_out \<Rightarrow>
               if n_in < 0 \<or> n_out < 0
               then Inl (RuntimeError ''Trying to create tensor with negative dimension'')
               else Inr (Linear n_in n_out)))"

text \<open>
  The body of the \<open>for i in range(self.fc_depth - 2)\<close> loop, run over the indices the
  range yields; the first layer that cannot be built ends the loop with its exception.
\<close>

primrec hidden_layers :: "config \<Rightarrow> nat list \<Rightarrow> error + (string \<times> layer) list" where
  "hidden_layers self [] = Inr []"
| "hidden_layers self (i # is) =
     (case nn_Linear (Some (fc_dim self)) (Some (fc_dim self)) of
        Inl e \<Rightarrow> Inl e
      | Inr fc \<Rightarrow>
          (case hidden_layers self is of
             Inl e \<Rightarrow> Inl e
           | Inr rest \<Rightarrow>
               Inr ([(''fc'' @ str_int (int i + 2), fc),
                     (''relu'' @ str_int (int i + 2), ReLU),
                     (''dropout'' @ str_int (int i + 2), Dropout)] @ rest)))"

text \<open>
  \<open>OrderedDict(seq)\<close>: a later pair with a key already present replaces the value and
  keeps the key's first position.
\<close>

primrec od_insert :: "string \<Rightarrow> 'v \<Rightarrow> (string \<times> 'v) list \<Rightarrow> (string \<times> 'v) list" where
  "od_insert k v [] = [(k, v)]"
| "od_insert k v (p # ps) = (if fst p = k then (k, v) # ps else p # od_insert k v ps)"

definition OrderedDict :: "(string \<times> 'v) list \<Rightarrow> (string \<times> 'v) list" where
  "OrderedDict seq = foldl (\<lambda>d (k, v). od_insert k v d) [] seq"

text \<open>
  \<open>define_classifier\<close> takes four optional arguments and defaults each to the field of
  \<open>self\<close>, but every later line reads \<open>self.fc_depth\<close>, \<open>self.conv_dim\<close>, \<open>self.fc_dim\<close>
  and \<open>self.num_classes\<close>: the arguments are bound and never used. The layers are built in
  the order of the source, so the exception of the first \<open>nn.Linear\<close> that fails is the
  one raised.
\<close>

definition define_classifier ::
  "config \<Rightarrow> int option \<Rightarrow> int option \<Rightarrow> int option \<Rightarrow> int option \<Rightarrow> error + classifier" where
  "define_classifier self num_classes_arg conv_dim_arg fc_depth_arg fc_dim_arg =
     (if fc_depth self \<le> 0 then Inr Identity
      else if fc_depth self = 1
        then (case nn_Linear (Some (conv_dim self)) (num_classes self) of
                Inl e \<Rightarrow> Inl e
              | Inr fc \<Rightarrow> Inr (Sequential (OrderedDict [(''fc'', fc)])))
        else (case nn_Linear (Some (conv_dim self)) (Some (fc_dim self)) of
                Inl e \<Rightarrow> Inl e
              | Inr fc1 \<Rightarrow>
                  (case hidden_layers self [0 ..< nat (fc_depth self - 2)] of
                     Inl e \<Rightarrow> Inl e
                   | Inr hidden \<Rightarrow>
                       (case nn_Linear (Some (fc_dim self)) (num_classes self) of
                          Inl e \<Rightarrow> Inl e
                        | Inr fc \<Rightarrow>
                            Inr (Sequential (OrderedDict (
                                   [(''fc1'', fc1), (''relu1'', ReLU), (''dropout1'', Dropout)]
                                   @ hidden
                                   @ [(''fc'' @ str_int (fc_depth self), fc)])))))))"

text \<open>
  What \<open>torch.nn\<close> does with the result: \<open>nn.Identity\<close> returns its argument,
  \<open>nn.Sequential\<close> applies its children in order; \<open>nn.Linear(i, o)\<close> owns a weight of
  shape \<open>(o, i)\<close> and a bias of shape \<open>(o)\<close>, the other two layers own nothing. The
  numeric action of a single layer is a parameter.
\<close>

fun classifier_forward :: "(layer \<Rightarrow> 'a \<Rightarrow> 'a) \<Rightarrow> classifier \<Rightarrow> 'a \<Rightarrow> 'a" where
  "classifier_forward run Identity x = x"
| "classifier_forward run (Sequential seq) x = foldl (\<lambda>y (n, l). run l y) x seq"

fun layer_parameters :: "layer \<Rightarrow> (string \<times> int list) list" where
  "layer_parameters (Linear n_in n_out) = [(''weight'', [n_out, n_in]), (''bias'', [n_out])]"
| "layer_parameters ReLU = []"
| "layer_parameters Dropout = []"

fun classifier_parameters :: "classifier \<Rightarrow> (string \<times> int list) list" where
  "classifier_parameters Identity = []"
| "classifier_parameters (Sequential seq) =
     concat (map (\<lambda>(n, l). map (\<lambda>(p, s). (n @ ''.'' @ p, s)) (layer_parameters l)) seq)"


fun named_children :: "classifier \<Rightarrow> (string \<times> layer) list" where
  "named_children Identity = []"
| "named_children (Sequential seq) = seq"

fun is_Linear :: "layer \<Rightarrow> bool" where
  "is_Linear (Linear _ _) = True"
| "is_Linear _ = False"

section \<open>The wrapper \<open>Model\<close>: data\<close>

text \<open>
  A parameter of the wrapped network: its shape, its values as raw 32-bit patterns (the
  bits \<open>torch.save\<close> writes), and its \<open>requires_grad\<close> flag. The network \<open>self._model\<close> is
  its named parameters, in registration order, and the \<open>training\<close> flag that
  \<open>train()\<close> and \<open>eval()\<close> set. \<open>self.model\<close> is the same module or a \<open>DataParallel\<close>
  wrapper around it, so both views read the parameters and the mode below.
\<close>

type_synonym weights = "nat list \<times> 32 word list"

record param =
  "value" :: weights
  requires_grad :: bool

record network =
  named_parameters :: "(string \<times> param) list"
  training :: bool

type_synonym state_dict = "(string \<times> weights) list"

text \<open>
  \<open>loss_weights\<close> is \<open>None\<close>, a string (the default is the sentinel \<open>'dataset'\<close>) or a
  tensor of per-class weights.
\<close>

datatype loss_weights = LW_None | LW_Str string | LW_Tensor "real list"

text \<open>What the wrapper reads of a \<open>Dataset\<close> object and of the global \<open>env\<close>.\<close>

record Dataset =
  data_type :: string
  name :: string
  num_classes :: int
  loss_weights :: loss_weights

datatype dataset_arg = DS_None | DS_Str string | DS_Obj Dataset

record env =
  data_dir :: string
  num_gpus :: int

record Model =
  name :: string
  dataset :: dataset_arg
  suffix :: string
  pretrain :: bool
  official :: bool
  randomized_smooth :: bool
  rs_sigma :: real
  rs_n :: int
  sgm :: bool
  sgm_gamma :: real
  num_classes :: "int option"
  loss_weights :: loss_weights
  folder_path :: "string option"
  net :: network

section \<open>Modes and gradient flags\<close>


definition eval_mode :: "Model \<Rightarrow> Model" where
  "eval_mode self = self\<lparr>net := (net self)\<lparr>training := False\<rparr>\<rparr>"

text \<open>
  \<open>activate_params\<close>: the first loop clears the flag of every parameter of \<open>_model\<close>, the
  second sets it (\<open>param.requires_grad_()\<close>) on every parameter of every group. A group lists parameters by name; a
  name the network does not own is a tensor outside the network and leaves it unchanged.
\<close>

definition set_requires_grad :: "string \<Rightarrow> (string \<times> param) list \<Rightarrow> (string \<times> param) list" where
  "set_requires_grad k ps = map (\<lambda>(k', p). if k' = k then (k', p\<lparr>requires_grad := True\<rparr>) else (k', p)) ps"

definition activate_params :: "Model \<Rightarrow> string list list \<Rightarrow> Model" where
  "activate_params self active_param =
     (let cleared = map (\<lambda>(k, p). (k, p\<lparr>requires_grad := False\<rparr>)) (named_parameters (net self));
          activated = foldl (\<lambda>ps param_group. foldl (\<lambda>ps' k. set_requires_grad k ps') ps param_group)
                        cleared active_param
      in self\<lparr>net := (net self)\<lparr>named_parameters := activated\<rparr>\<rparr>)"

section \<open>Checkpoint files\<close>

text \<open>
  The file system as far as \<open>save\<close> and \<open>load\<close> touch it: a path holds a directory, a
  checkpoint written by \<open>torch.save\<close>, or something \<open>torch.load\<close> cannot read.
  \<open>os.path.exists('')\<close> is false and \<open>os.makedirs('')\<close> raises. \<open>os.makedirs\<close> is
  modelled on the leaf directory only.
\<close>

datatype fs_entry = Directory | Checkpoint state_dict | Unreadable

type_synonym fs = "string \<rightharpoonup> fs_entry"

definition exists :: "fs \<Rightarrow> string \<Rightarrow> bool" where
  "exists files p = (p \<noteq> [] \<and> files p \<noteq> None)"

definition makedirs :: "fs \<Rightarrow> string \<Rightarrow> error + fs" where
  "makedirs files p =
     (if p = [] then Inl (FileNotFoundError ''[Errno 2] No such file or directory: '')
      else Inr (files(p \<mapsto> Directory)))"

definition torch_save :: "fs \<Rightarrow> state_dict \<Rightarrow> string \<Rightarrow> error + fs" where
  "torch_save files d p =
     (if p = [] then Inl (FileNotFoundError p)
      else if files p = Some Directory then Inl (IsADirectoryError p)
      else Inr (files(p \<mapsto> Checkpoint d)))"

definition torch_load :: "fs \<Rightarrow> string \<Rightarrow> error + state_dict" where
  "torch_load files p =
     (case files p of
        None \<Rightarrow> Inl (FileNotFoundError p)
      | Some Directory \<Rightarrow> Inl (IsADirectoryError p)
      | Some Unreadable \<Rightarrow> Inl (RuntimeError ''Invalid magic number; corrupt file?'')
      | Some (Checkpoint d) \<Rightarrow> Inr d)"

text \<open>
  \<open>os.path.dirname\<close> (posixpath): everything up to the last slash, with trailing slashes
  removed unless the head consists of slashes only.
\<close>

definition dirname :: "string \<Rightarrow> string" where
  "dirname p =
     (let head = rev (dropWhile (\<lambda>c. c \<noteq> CHR ''/'') (rev p))
      in if head \<noteq> [] \<and> \<not> list_all (\<lambda>c. c = CHR ''/'') head
         then rev (dropWhile (\<lambda>c. c = CHR ''/'') (rev head)) else head)"

text \<open>
  \<open>state_dict()\<close> of the module whose parameter names start with \<open>prefix\<close>, the prefix
  removed: \<open>_model.state_dict()\<close> is the empty prefix, \<open>_model.classifier.state_dict()\<close>
  the prefix \<open>classifier.\<close>.
\<close>

definition own_parameters :: "string \<Rightarrow> network \<Rightarrow> (string \<times> param) list" where
  "own_parameters prefix n =
     map (\<lambda>(k, p). (drop (length prefix) k, p))
       (filter (\<lambda>(k, p). take (length prefix) k = prefix) (named_parameters n))"

definition state_dict :: "string \<Rightarrow> network \<Rightarrow> state_dict" where
  "state_dict prefix n = map (\<lambda>(k, p). (k, value p)) (own_parameters prefix n)"

text \<open>
  \<open>load_state_dict(d)\<close> with \<open>strict=True\<close>: every own parameter whose key is in \<open>d\<close> with
  the same shape is overwritten in place (its flag is kept); a key missing from \<open>d\<close>, a key
  of \<open>d\<close> the module does not own, or a shape mismatch raises after the copies are done.
\<close>

definition load_param :: "string \<Rightarrow> state_dict \<Rightarrow> string \<times> param \<Rightarrow> string \<times> param" where
  "load_param prefix d kp =
     (if take (length prefix) (fst kp) = prefix
      then (case map_of d (drop (length prefix) (fst kp)) of
              Some w \<Rightarrow> if fst w = fst (value (snd kp)) then (fst kp, (snd kp)\<lparr>value := w\<rparr>) else kp
            | None \<Rightarrow> kp)
      else kp)"

definition load_errors :: "string \<Rightarrow> network \<Rightarrow> state_dict \<Rightarrow> bool" where
  "load_errors prefix n d =
     (list_ex (\<lambda>(k, p). case map_of d k of None \<Rightarrow> True | Some w \<Rightarrow> fst w \<noteq> fst (value p))
        (own_parameters prefix n)
      \<or> list_ex (\<lambda>(k, w). map_of (own_parameters prefix n) k = None) d)"

definition load_state_dict :: "string \<Rightarrow> network \<Rightarrow> state_dict \<Rightarrow> (error + unit) \<times> network" where
  "load_state_dict prefix n d =
     (let n' = n\<lparr>named_parameters := map (load_param prefix d) (named_parameters n)\<rparr>
      in if load_errors prefix n d
         then (Inl (RuntimeError ''Error(s) in loading state_dict''), n')
         else (Inr (), n'))"

section \<open>\<open>Model.load\<close> and \<open>Model.save\<close>\<close>

text \<open>
  Lines 272--276 of \<open>load\<close> and 299--303 of \<open>save\<close> are the same: the folder and the suffix
  default to the wrapper's, and the path is the plain concatenation
  \<open>folder_path + self.name + suffix + '.pth'\<close>. \<open>self.folder_path\<close> is \<open>None\<close> when neither
  a folder nor a dataset was given; \<open>None + str\<close> raises \<open>TypeError\<close>. The result is the
  file path and the folder.
\<close>

definition default_file_path ::
  "Model \<Rightarrow> string option \<Rightarrow> string option \<Rightarrow> error + (string \<times> string)" where
  "default_file_path self folder_path_arg suffix_arg =
     (let folder = (case folder_path_arg of None \<Rightarrow> folder_path self | Some f \<Rightarrow> Some f);
          sfx = (case suffix_arg of None \<Rightarrow> suffix self | Some s \<Rightarrow> s)
      in case folder of
           None \<Rightarrow> Inl (TypeError ''unsupported operand type(s) for +: 'NoneType' and 'str' '')
         | Some f \<Rightarrow> Inr (f @ name self @ sfx @ ''.pth'', f))"

definition load_official_weights :: "Model \<Rightarrow> (error + unit) \<times> Model" where
  "load_official_weights self =
     (Inl (NotImplementedError (name self @ '' has no official weights.'')), self)"

text \<open>Lines 279--291 of \<open>load\<close>, once the path is known.\<close>

definition load_file :: "Model \<Rightarrow> fs \<Rightarrow> string \<Rightarrow> bool \<Rightarrow> (error + unit) \<times> Model" where
  "load_file self files file_path features =
     (if exists files file_path
      then (case torch_load files file_path of
              Inl e \<Rightarrow> (Inl e, self)
            | Inr d \<Rightarrow>
                (let (r, n') = load_state_dict (if features then [] else ''classifier.'') (net self) d
                 in (r, self\<lparr>net := n'\<rparr>)))
      else (Inl (FileNotFoundError (''Model file not exist: '' @ file_path)), self))"

definition load ::
  "Model \<Rightarrow> fs \<Rightarrow> string option \<Rightarrow> string option \<Rightarrow> string option \<Rightarrow> bool
     \<Rightarrow> (error + unit) \<times> Model" where
  "load self files file_path folder_path_arg suffix_arg features =
     (case file_path of
        None \<Rightarrow>
          (case default_file_path self folder_path_arg suffix_arg of
             Inl e \<Rightarrow> (Inl e, self)
           | Inr (fp, folder) \<Rightarrow> load_file self files fp features)
      | Some fp \<Rightarrow>
          if fp = ''official'' then load_official_weights self
          else load_file self files fp features)"

definition save ::
  "Model \<Rightarrow> fs \<Rightarrow> string option \<Rightarrow> string option \<Rightarrow> string option \<Rightarrow> bool
     \<Rightarrow> (error + unit) \<times> fs" where
  "save self files file_path folder_path_arg suffix_arg features =
     (case (case file_path of
              None \<Rightarrow> default_file_path self folder_path_arg suffix_arg
            | Some fp \<Rightarrow> Inr (fp, dirname fp)) of
        Inl e \<Rightarrow> (Inl e, files)
      | Inr (fp, folder) \<Rightarrow>
          (case (if \<not> exists files folder then makedirs files folder else Inr files) of
             Inl e \<Rightarrow> (Inl e, files)
           | Inr files1 \<Rightarrow>
               (case torch_save files1
                       (state_dict (if features then [] else ''classifier.'') (net self)) fp of
                  Inl e \<Rightarrow> (Inl e, files1)
                | Inr files2 \<Rightarrow> (Inr (), files2))))"

section \<open>\<open>Model.__init__\<close> and the criterion\<close>

text \<open>
  The keyword arguments of \<open>__init__\<close>. \<open>model_class(num_classes=num_classes, **kwargs)\<close>
  is a parameter of the model: it yields the freshly built network, or the exception the
  constructor of the network raises.
\<close>

record init_args =
  arg_name :: string
  arg_dataset :: dataset_arg
  arg_num_classes :: "int option"
  arg_loss_weights :: loss_weights
  arg_official :: bool
  arg_pretrain :: bool
  arg_randomized_smooth :: bool
  arg_rs_sigma :: real
  arg_rs_n :: int
  arg_sgm :: bool
  arg_sgm_gamma :: real
  arg_suffix :: string
  arg_folder_path :: "string option"

text \<open>
  Lines 144--153, the block under \<open>if dataset:\<close>. \<open>None\<close> and the empty string are
  falsy; any other string raises \<open>TypeError\<close>; a dataset object fills in the folder, the
  number of classes and the loss weights that were left at their defaults. The result is
  the folder, the number of classes and the loss weights after the block.
\<close>

definition dataset_defaults ::
  "env \<Rightarrow> init_args \<Rightarrow> error + (string option \<times> int option \<times> loss_weights)" where
  "dataset_defaults e a =
     (case arg_dataset a of
        DS_None \<Rightarrow> Inr (arg_folder_path a, arg_num_classes a, arg_loss_weights a)
      | DS_Str s \<Rightarrow>
          if s = [] then Inr (arg_folder_path a, arg_num_classes a, arg_loss_weights a)
          else Inl (TypeError s)
      | DS_Obj d \<Rightarrow>
          Inr (case arg_folder_path a of
                 None \<Rightarrow> Some (data_dir e @ data_type d @ ''/'' @ Dataset.name d @ ''/model/'')
               | Some f \<Rightarrow> Some f,
               case arg_num_classes a of
                 None \<Rightarrow> Some (Dataset.num_classes d)
               | Some n \<Rightarrow> Some n,
               if arg_loss_weights a = LW_Str ''dataset'' then Dataset.loss_weights d
               else arg_loss_weights a))"

text \<open>
  \<open>get_parallel\<close>: whether the network is wrapped in \<open>DataParallel\<close>. With several
  GPUs and no dataset it reads \<open>self.name[0]\<close> and, when that is \<open>g\<close>, \<open>self.name[2]\<close>; a
  name too short raises \<open>IndexError\<close>.
\<close>

definition get_parallel :: "env \<Rightarrow> Model \<Rightarrow> error + bool" where
  "get_parallel e self =
     (let by_name =
            (if name self = [] then Inl (IndexError ''string index out of range'')
             else if name self ! 0 = CHR ''g''
               then (if length (name self) < 3 then Inl (IndexError ''string index out of range'')
                     else Inr (name self ! 2 \<noteq> CHR ''n''))
               else Inr True)
      in if 1 < num_gpus e then
           (case dataset self of
              DS_Obj d \<Rightarrow> Inr (data_type d = ''image'')
            | DS_Str s \<Rightarrow>
                if s = [] then by_name
                else Inl (AttributeError ''str object has no attribute data_type'')
            | DS_None \<Rightarrow> by_name)
         else Inr False)"

text \<open>
  \<open>__init__\<close> from line 125 on. \<open>self.cuda()\<close> moves the parameters to another device and
  changes neither their values nor their flags nor the mode, and is left out.
\<close>

definition Model_init ::
  "env \<Rightarrow> fs \<Rightarrow> (int option \<Rightarrow> error + network) \<Rightarrow> init_args \<Rightarrow> error + Model" where
  "Model_init e files model_class a =
     (case dataset_defaults e a of
        Inl err \<Rightarrow> Inl err
      | Inr (folder, n_classes, weights) \<Rightarrow>
          (case model_class n_classes of
             Inl err \<Rightarrow> Inl err
           | Inr built \<Rightarrow>
          (let self0 = \<lparr>name = arg_name a, dataset = arg_dataset a, suffix = arg_suffix a,
                        pretrain = arg_pretrain a, official = arg_official a,
                        randomized_smooth = arg_randomized_smooth a, rs_sigma = arg_rs_sigma a,
                        rs_n = arg_rs_n a, sgm = arg_sgm a, sgm_gamma = arg_sgm_gamma a,
                        num_classes = n_classes, loss_weights = weights, folder_path = folder,
                        net = built\<rparr>;
               self1 = activate_params self0 []
           in case get_parallel e self1 of
                Inl err \<Rightarrow> Inl err
              | Inr parallel \<Rightarrow>
                  (case (if arg_official a then load self1 files (Some ''official'') None None True
                         else (Inr (), self1)) of
                     (Inl err, self2) \<Rightarrow> Inl err
                   | (Inr u, self2) \<Rightarrow>
                       (case (if arg_pretrain a then load self2 files None None None True
                              else (Inr (), self2)) of
                          (Inl err, self3) \<Rightarrow> Inl err
                        | (Inr u', self3) \<Rightarrow> Inr (eval_mode self3))))))"

text \<open>
  \<open>define_criterion\<close>. \<open>nn.CrossEntropyLoss(weight)\<close> is a parameter. The weight it is
  built with is the argument, with a string replaced by \<open>None\<close>; the closure \<open>loss_fn\<close>
  reads \<open>self.loss_weights\<close> again when it is called and, unless that is \<open>None\<close>, asks it
  for \<open>.device\<close> and \<open>.dtype\<close>, which a string does not have. \<open>_output.to(...)\<close> on a
  tensor changes device and dtype only.
\<close>

definition define_criterion ::
  "Model \<Rightarrow> (real list option \<Rightarrow> 'o \<Rightarrow> 'l \<Rightarrow> real) \<Rightarrow> loss_weights \<Rightarrow> 'o \<Rightarrow> 'l \<Rightarrow> error + real" where
  "define_criterion self CrossEntropyLoss loss_weights_arg =
     (let entropy_fn = CrossEntropyLoss (case loss_weights_arg of
                                           LW_Str s \<Rightarrow> None
                                         | LW_None \<Rightarrow> None
                                         | LW_Tensor w \<Rightarrow> Some w)
      in (\<lambda>output label.
            case loss_weights self of
              LW_None \<Rightarrow> Inr (entropy_fn output label)
            | LW_Str s \<Rightarrow> Inl (AttributeError ''str object has no attribute device'')
            | LW_Tensor w \<Rightarrow> Inr (entropy_fn output label)))"

text \<open>
  \<open>self.criterion\<close> as \<open>__init__\<close> sets it (line 160): \<open>define_criterion\<close> on the value it
  has just stored in \<open>self.loss_weights\<close>.
\<close>

definition criterion ::
  "Model \<Rightarrow> (real list option \<Rightarrow> 'o \<Rightarrow> 'l \<Rightarrow> real) \<Rightarrow> 'o \<Rightarrow> 'l \<Rightarrow> error + real" where
  "criterion self CrossEntropyLoss = define_criterion self CrossEntropyLoss (loss_weights self)"

section \<open>Forward operations\<close>

text \<open>
  An input tensor is its shape and its values; a batch of logits is a two-dimensional
  tensor, given by its number of columns and its rows.
\<close>

record tensor =
  shape :: "nat list"
  vals :: "real list"

record logits =
  ncols :: nat
  rows :: "real list list"

text \<open>
  Modelled from the spec: \<open>add_noise\<close> of \<open>trojanzoo.utils\<close> is not part of the sources at
  hand. The specification describes its use in \<open>get_logits\<close> as drawing a
  "Gaussian-noise-perturbed" copy of the input with standard deviation \<open>std\<close>: element
  \<open>i\<close> of the copy is the input's element plus \<open>std\<close> times a standard normal draw
  \<open>z i\<close>.
\<close>

definition add_noise :: "tensor \<Rightarrow> real \<Rightarrow> (nat \<Rightarrow> real) \<Rightarrow> tensor" where
  "add_noise x std z = x\<lparr>vals := map (\<lambda>i. vals x ! i + std * z i) [0 ..< length (vals x)]\<rparr>"

text \<open>
  \<open>torch.stack(_list).mean(dim=0)\<close>: an empty list and tensors of different sizes raise;
  otherwise the element-wise sum divided by the number of tensors.
\<close>

definition tensor_add :: "real list list \<Rightarrow> real list list \<Rightarrow> real list list" where
  "tensor_add a b = map2 (map2 (+)) a b"

definition stack_mean :: "logits list \<Rightarrow> error + logits" where
  "stack_mean ts =
     (case ts of
        [] \<Rightarrow> Inl (RuntimeError ''stack expects a non-empty TensorList'')
      | t # rest \<Rightarrow>
          if list_all (\<lambda>u. ncols u = ncols t \<and> length (rows u) = length (rows t)) rest
          then Inr (t\<lparr>rows := map (map (\<lambda>s. s / real (length ts)))
                                (foldl (\<lambda>acc u. tensor_add acc (rows u)) (rows t) rest)\<rparr>)
          else Inl (RuntimeError ''stack expects each tensor to be equal size''))"

text \<open>
  \<open>get_logits\<close>. \<open>model\<close> is the forward pass of \<open>self.model\<close>, a function: the network is
  deterministic. \<open>noise k\<close> is the standard normal draw of the \<open>k\<close>-th sample.
\<close>

definition get_logits ::
  "Model \<Rightarrow> (tensor \<Rightarrow> logits) \<Rightarrow> (nat \<Rightarrow> nat \<Rightarrow> real) \<Rightarrow> tensor
     \<Rightarrow> bool option \<Rightarrow> real option \<Rightarrow> int option \<Rightarrow> error + logits" where
  "get_logits self model noise input randomized_smooth_arg rs_sigma_arg rs_n_arg =
     (if (case randomized_smooth_arg of None \<Rightarrow> randomized_smooth self | Some b \<Rightarrow> b)
      then (let sigma = (case rs_sigma_arg of None \<Rightarrow> rs_sigma self | Some s \<Rightarrow> s);
                n = (case rs_n_arg of None \<Rightarrow> rs_n self | Some k \<Rightarrow> k)
            in stack_mean (map (\<lambda>k. model (add_noise input sigma (noise k))) [0 ..< nat n]))
      else Inr (model input))"

text \<open>
  \<open>argsort(descending=True)\<close> and \<open>topk(..., largest=True, sorted=True)\<close>: the class
  indices by decreasing score. Torch leaves the order of equal scores open; here the lower
  index comes first. \<open>argmax\<close> is the first index of a greatest score.
\<close>

definition argsort_desc :: "real list \<Rightarrow> nat list" where
  "argsort_desc r = sort_key (\<lambda>i. - (r ! i)) [0 ..< length r]"

definition argmax :: "real list \<Rightarrow> nat" where
  "argmax r = hd (argsort_desc r)"


definition py_index :: "nat \<Rightarrow> int \<Rightarrow> error + nat" where
  "py_index n i =
     (if 0 \<le> i \<and> i < int n then Inr (nat i)
      else if i < 0 \<and> - int n \<le> i then Inr (nat (int n + i))
      else Inl (IndexError ''index out of range''))"

section \<open>\<open>Model.accuracy\<close>\<close>




section \<open>\<open>Model.generate_target\<close>\<close>

text \<open>
  Modelled from the spec: \<open>repeat_to_batch\<close> of \<open>trojanzoo.utils\<close> is not part of the
  sources at hand. With \<open>same=True\<close> the specification "replaces per-example targets with
  the single most common target across the batch (broadcast to all examples)"; of several
  most common targets the smallest is taken.
\<close>

definition mode :: "nat list \<Rightarrow> nat" where
  "mode xs =
     (let best = fold max (map (count_list xs) xs) 0;
          modes = filter (\<lambda>x. count_list xs x = best) xs
      in fold min modes (hd modes))"

definition repeat_to_batch :: "nat \<Rightarrow> nat \<Rightarrow> nat list" where
  "repeat_to_batch x batch_size = replicate batch_size x"

text \<open>
  \<open>generate_target\<close>. A three-dimensional input becomes a batch of one. The assignment to
  \<open>self.batch_size\<close> is not read by any function modelled here and is left out.
\<close>

definition generate_target ::
  "Model \<Rightarrow> (tensor \<Rightarrow> logits) \<Rightarrow> (nat \<Rightarrow> nat \<Rightarrow> real) \<Rightarrow> tensor \<Rightarrow> int \<Rightarrow> bool
     \<Rightarrow> error + nat list" where
  "generate_target self model noise input idx same =
     (let x = (if length (shape input) = 3 then input\<lparr>shape := 1 # shape input\<rparr> else input)
      in case get_logits self model noise x None None None of
           Inl e \<Rightarrow> Inl e
         | Inr output \<Rightarrow>
             (case py_index (ncols output) idx of
                Inl e \<Rightarrow> Inl e
              | Inr j \<Rightarrow>
                  (let target = map (\<lambda>r. argsort_desc r ! j) (rows output)
                   in if same
                      then (if target = [] then Inl (IndexError ''mode of an empty tensor'')
                            else Inr (repeat_to_batch (mode target) (hd (shape x))))
                      else Inr target)))"

section \<open>\<open>Model._validate\<close> and \<open>Model._train\<close>\<close>


text \<open>
  The state \<open>_train\<close> threads through its epochs: the wrapper, \<open>best_acc\<close>, and a log of
  what the caller can observe, namely each validation inside the loop with its epoch index
  and accuracy, and the epoch index of each call of \<open>save_fn\<close>.
\<close>

record train_state =
  model :: Model
  best_acc :: real
  validated :: "(nat \<times> real) list"
  saved :: "nat list"



section \<open>The claims as the specification words them\<close>


text \<open>
  The second is "checkpoint is written exactly once per accuracy improvement, never on a
  tie": the epochs of the validations whose accuracy is strictly above the best seen
  before them, \<open>b\<close> being the best on entry.
\<close>

fun improvement_points :: "real \<Rightarrow> (nat \<times> real) list \<Rightarrow> nat list" where
  "improvement_points b [] = []"
| "improvement_points b ((e, c) # vs) =
     (if b < c then e # improvement_points c vs else improvement_points b vs)"


text \<open>The scores of a row of logits from the highest down: top-1 is at index 0.\<close>

definition top_scores :: "real list \<Rightarrow> real list" where
  "top_scores r = rev (sort r)"

section \<open>Small instances\<close>

text \<open>
  A network of two parameters as its constructor leaves it, the arguments of a wrapper
  built without a dataset, and the wrapper \<open>__init__\<close> makes of them.
\<close>

definition ex_network :: network where
  "ex_network = \<lparr>named_parameters =
      [(''features.weight'', \<lparr>value = ([1], [1]), requires_grad = True\<rparr>),
       (''classifier.fc.weight'', \<lparr>value = ([2], [2, 3]), requires_grad = True\<rparr>)],
     training = True\<rparr>"

definition ex_args :: init_args where
  "ex_args = \<lparr>arg_name = ''net'', arg_dataset = DS_None, arg_num_classes = Some 2,
     arg_loss_weights = LW_Str ''dataset'', arg_official = False, arg_pretrain = False,
     arg_randomized_smooth = False, arg_rs_sigma = 1 / 100, arg_rs_n = 100, arg_sgm = False,
     arg_sgm_gamma = 1, arg_suffix = [], arg_folder_path = Some ''ckpt/''\<rparr>"

definition ex_model :: Model where
  "ex_model = \<lparr>name = ''net'', dataset = DS_None, suffix = [], pretrain = False,
     official = False, randomized_smooth = False, rs_sigma = 1 / 100, rs_n = 100, sgm = False,
     sgm_gamma = 1, num_classes = Some 2, loss_weights = LW_Str ''dataset'',
     folder_path = Some ''ckpt/'',
     net = \<lparr>named_parameters =
        [(''features.weight'', \<lparr>value = ([1], [1]), requires_grad = False\<rparr>),
         (''classifier.fc.weight'', \<lparr>value = ([2], [2, 3]), requires_grad = False\<rparr>)],
       training = False\<rparr>\<rparr>"

text \<open>The same wrapper after its parameters were overwritten, and the files after a save.\<close>

definition ex_perturbed :: Model where
  "ex_perturbed = ex_model\<lparr>net := \<lparr>named_parameters =
        [(''features.weight'', \<lparr>value = ([1], [7]), requires_grad = True\<rparr>),
         (''classifier.fc.weight'', \<lparr>value = ([2], [8, 9]), requires_grad = False\<rparr>)],
       training = True\<rparr>\<rparr>"

definition ex_files :: fs where
  "ex_files = [''ckpt/'' \<mapsto> Directory,
               ''ckpt/net.pth'' \<mapsto> Checkpoint [(''features.weight'', ([1], [1])),
                                                  (''classifier.fc.weight'', ([2], [2, 3]))]]"

section \<open>Properties of \<open>define_classifier\<close>\<close>

subsection \<open>The layer names are pairwise distinct\<close>

text \<open>
  \<open>OrderedDict\<close> keeps every pair only when the keys differ, so the layer names must be
  shown distinct: decimal notation is injective.
\<close>

lemma str_nat_nonempty: "str_nat n \<noteq> []"
  by (induction n rule: str_nat.induct) (subst str_nat.simps, simp)

lemma digit_inj: "a < 10 \<Longrightarrow> b < 10 \<Longrightarrow> ''0123456789'' ! a = ''0123456789'' ! b \<Longrightarrow> a = b"
proof -
  assume a: "a < 10" and b: "b < 10" and e: "''0123456789'' ! a = ''0123456789'' ! b"
  have d: "distinct ''0123456789''" by simp
  have "length ''0123456789'' = 10" by simp
  with a b e d show "a = b" by (metis nth_eq_iff_index_eq)
qed

lemma str_nat_inj: "str_nat n = str_nat m \<Longrightarrow> n = m"
proof (induction n arbitrary: m rule: str_nat.induct)
  case (1 n)
  show ?case
  proof (cases "n < 10")
    case True
    then have sn: "str_nat n = [''0123456789'' ! n]" by (subst str_nat.simps) simp
    show ?thesis
    proof (cases "m < 10")
      case mt: True
      then have "str_nat m = [''0123456789'' ! m]" by (subst str_nat.simps) simp
      with sn "1.prems" have "''0123456789'' ! n = ''0123456789'' ! m" by simp
      with True mt show ?thesis by (rule digit_inj)
    next
      case mf: False
      then have "str_nat m = str_nat (m div 10) @ [''0123456789'' ! (m mod 10)]"
        by (subst str_nat.simps) simp
      with sn "1.prems" str_nat_nonempty[of "m div 10"] show ?thesis by simp
    qed
  next
    case False
    then have sn: "str_nat n = str_nat (n div 10) @ [''0123456789'' ! (n mod 10)]"
      by (subst str_nat.simps) simp
    show ?thesis
    proof (cases "m < 10")
      case mt: True
      then have "str_nat m = [''0123456789'' ! m]" by (subst str_nat.simps) simp
      with sn "1.prems" str_nat_nonempty[of "n div 10"] show ?thesis by simp
    next
      case mf: False
      then have sm: "str_nat m = str_nat (m div 10) @ [''0123456789'' ! (m mod 10)]"
        by (subst str_nat.simps) simp
      from sn sm "1.prems" have e1: "str_nat (n div 10) = str_nat (m div 10)"
        and e2: "''0123456789'' ! (n mod 10) = ''0123456789'' ! (m mod 10)" by simp_all
      from "1.IH"[OF False e1] have d: "n div 10 = m div 10" .
      have "n mod 10 = m mod 10" by (rule digit_inj[OF _ _ e2]) simp_all
      with d show ?thesis by (metis div_mult_mod_eq)
    qed
  qed
qed

lemma od_insert_fresh: "k \<notin> fst ` set d \<Longrightarrow> od_insert k v d = d @ [(k, v)]"
  by (induction d) auto

lemma OrderedDict_foldl:
  "distinct (map fst (d @ seq)) \<Longrightarrow> foldl (\<lambda>d (k, v). od_insert k v d) d seq = d @ seq"
proof (induction seq arbitrary: d)
  case Nil then show ?case by simp
next
  case (Cons p seq)
  obtain k v where p: "p = (k, v)" by (cases p)
  from Cons.prems p have fresh: "k \<notin> fst ` set d" by auto
  from Cons.prems p have "distinct (map fst ((d @ [(k, v)]) @ seq))" by auto
  from Cons.IH[OF this] fresh p show ?case by (simp add: od_insert_fresh)
qed

lemma OrderedDict_distinct: "distinct (map fst seq) \<Longrightarrow> OrderedDict seq = seq"
  using OrderedDict_foldl[of "[]" seq] by (simp add: OrderedDict_def)

lemma str_int_nat: "str_int (int n) = str_nat n"
  by (simp add: str_int_def)

lemma str_int_nat2: "str_int (int i + 2) = str_nat (i + 2)"
proof -
  have "int i + 2 = int (i + 2)" by simp
  then show ?thesis by (simp only: str_int_nat)
qed

text \<open>The layers the loop appends for the indices \<open>is\<close>, when every one can be built.\<close>

lemma nn_Linear_ok:
  "0 \<le> n_in \<Longrightarrow> 0 \<le> n_out \<Longrightarrow> nn_Linear (Some n_in) (Some n_out) = Inr (Linear n_in n_out)"
  by (simp add: nn_Linear_def)

lemma nn_Linear_negative:
  "n_in < 0 \<or> n_out < 0 \<Longrightarrow>
     nn_Linear (Some n_in) (Some n_out)
       = Inl (RuntimeError ''Trying to create tensor with negative dimension'')"
  by (simp add: nn_Linear_def)

lemma hidden_layers_ok:
  "0 \<le> fc_dim self \<Longrightarrow>
     hidden_layers self is =
       Inr (concat (map (\<lambda>i. [(''fc'' @ str_int (int i + 2), Linear (fc_dim self) (fc_dim self)),
                               (''relu'' @ str_int (int i + 2), ReLU),
                               (''dropout'' @ str_int (int i + 2), Dropout)]) is))"
  by (induction "is") (simp_all add: nn_Linear_ok)

lemma hidden_keys:
  "fst ` set (concat (map (\<lambda>i. [(f i, l1), (g i, l2), (h i, l3)]) is)) =
     (\<Union>i\<in>set is. {f i, g i, h i})"
  by (induction "is") auto

lemma hidden_distinct:
  "distinct is \<Longrightarrow>
     distinct (map fst (concat (map (\<lambda>i. [(''fc'' @ str_int (int i + 2), l1),
                                           (''relu'' @ str_int (int i + 2), l2),
                                           (''dropout'' @ str_int (int i + 2), l3)]) is)))"
proof (induction "is")
  case Nil then show ?case by simp
next
  case (Cons i "is")
  have "\<And>j. j \<in> set is \<Longrightarrow> str_nat (i + 2) \<noteq> str_nat (j + 2)"
    using Cons.prems str_nat_inj by fastforce
  with Cons show ?case
    by (auto simp: str_int_nat2 hidden_keys)
qed

lemma hidden_layers_layers:
  "map snd (concat (map (\<lambda>i. [(f i, l1), (g i, l2), (h i, l3)]) is)) =
     concat (replicate (length is) [l1, l2, l3])"
  by (induction "is") auto

lemma hidden_layers_names:
  "map fst (concat (map (\<lambda>i. [(f i, l1), (g i, l2), (h i, l3)]) is)) =
     concat (map (\<lambda>i. [f i, g i, h i]) is)"
  by (induction "is") auto

lemma count_linear_hidden:
  "length (filter (is_Linear \<circ> snd)
     (concat (map (\<lambda>i. [(f i, Linear m n), (g i, ReLU), (h i, Dropout)]) is))) = length is"
  by (induction "is") auto

lemma str_nat_1: "str_nat 1 = ''1''" by (subst str_nat.simps) simp

lemma deep_keys_distinct:
  assumes "1 < depth"
  shows "distinct (map fst (
               [(''fc1'', l1), (''relu1'', ReLU), (''dropout1'', Dropout)]
               @ concat (map (\<lambda>i. [(''fc'' @ str_int (int i + 2), l),
                                     (''relu'' @ str_int (int i + 2), ReLU),
                                     (''dropout'' @ str_int (int i + 2), Dropout)])
                           [0 ..< nat (depth - 2)])
               @ [(''fc'' @ str_int depth, l2)]))"
proof -
  let ?n = "nat (depth - 2)"
  let ?H = "concat (map (\<lambda>i. [(''fc'' @ str_int (int i + 2), l),
                                (''relu'' @ str_int (int i + 2), ReLU),
                                (''dropout'' @ str_int (int i + 2), Dropout)]) [0 ..< ?n])"
  have d: "str_int depth = str_nat (?n + 2)"
    using assms str_int_nat[of "?n + 2"] by (simp add: nat_add_distrib)
  have one: "\<And>j. str_nat (j + 2) \<noteq> ''1''"
  proof
    fix j assume "str_nat (j + 2) = ''1''"
    then have "str_nat (j + 2) = str_nat 1" by (simp only: str_nat_1)
    then have "j + 2 = 1" by (rule str_nat_inj)
    then show False by simp
  qed
  have one': "\<And>j. ''1'' \<noteq> str_nat (j + 2)"
    using one by metis
  have hd: "distinct (map fst ?H)"
    by (rule hidden_distinct) simp
  have a: "''fc1'' \<notin> fst ` set ?H" "''relu1'' \<notin> fst ` set ?H" "''dropout1'' \<notin> fst ` set ?H"
    using one one' by (auto simp: hidden_keys str_int_nat2)
  have b: "''fc'' @ str_nat (?n + 2) \<notin> fst ` set ?H"
  proof
    assume "''fc'' @ str_nat (?n + 2) \<in> fst ` set ?H"
    then obtain j where j: "j < ?n" and "str_nat (?n + 2) = str_nat (j + 2)"
      by (auto simp: hidden_keys str_int_nat2)
    then have "?n + 2 = j + 2" by (metis str_nat_inj)
    with j show False by simp
  qed
  have c: "''fc'' @ str_nat (?n + 2) \<noteq> ''fc1''"
    using one[of ?n] by simp
  show ?thesis
    using hd a b c by (simp add: d)
qed

lemma define_classifier_deep:
  assumes "1 < fc_depth self" "0 \<le> conv_dim self" "0 \<le> fc_dim self"
    "config.num_classes self = Some nc" "0 \<le> nc"
  shows "define_classifier self a b c d = Inr (Sequential (
               [(''fc1'', Linear (conv_dim self) (fc_dim self)),
                (''relu1'', ReLU),
                (''dropout1'', Dropout)]
               @ concat (map (\<lambda>i. [(''fc'' @ str_int (int i + 2), Linear (fc_dim self) (fc_dim self)),
                                     (''relu'' @ str_int (int i + 2), ReLU),
                                     (''dropout'' @ str_int (int i + 2), Dropout)])
                           [0 ..< nat (fc_depth self - 2)])
               @ [(''fc'' @ str_int (fc_depth self), Linear (fc_dim self) nc)]))"
  using assms OrderedDict_distinct[OF deep_keys_distinct[OF assms(1)]]
  by (simp add: define_classifier_def nn_Linear_ok hidden_layers_ok)

lemma define_classifier_one:
  assumes "fc_depth self = 1" "0 \<le> conv_dim self" "config.num_classes self = Some nc" "0 \<le> nc"
  shows "define_classifier self a b c d = Inr (Sequential [(''fc'', Linear (conv_dim self) nc)])"
  using assms by (simp add: define_classifier_def nn_Linear_ok OrderedDict_def)

text \<open>When a layer cannot be built, no classifier is.\<close>

lemma hidden_layers_negative:
  "fc_dim self < 0 \<Longrightarrow> is \<noteq> [] \<Longrightarrow> isl (hidden_layers self is)"
  by (cases "is") (simp_all add: nn_Linear_def)

lemma define_classifier_raises:
  assumes "1 \<le> fc_depth self"
    and "config.num_classes self = None \<or> (\<exists>nc. config.num_classes self = Some nc \<and> nc < 0)
         \<or> conv_dim self < 0 \<or> (1 < fc_depth self \<and> fc_dim self < 0)"
  shows "isl (define_classifier self a b c d)"
proof (cases "fc_depth self = 1")
  case True
  with assms(2) show ?thesis
    by (auto simp: define_classifier_def nn_Linear_def split: option.splits)
next
  case False
  with assms(1) have deep: "1 < fc_depth self" by simp
  then have sel: "define_classifier self a b c d =
      (case nn_Linear (Some (conv_dim self)) (Some (fc_dim self)) of
         Inl e \<Rightarrow> Inl e
       | Inr fc1 \<Rightarrow>
           (case hidden_layers self [0 ..< nat (fc_depth self - 2)] of
              Inl e \<Rightarrow> Inl e
            | Inr hidden \<Rightarrow>
                (case nn_Linear (Some (fc_dim self)) (config.num_classes self) of
                   Inl e \<Rightarrow> Inl e
                 | Inr fc \<Rightarrow>
                     Inr (Sequential (OrderedDict (
                            [(''fc1'', fc1), (''relu1'', ReLU), (''dropout1'', Dropout)]
                            @ hidden
                            @ [(''fc'' @ str_int (fc_depth self), fc)]))))))"
    by (simp add: define_classifier_def)
  from assms(2) deep have
    "isl (nn_Linear (Some (conv_dim self)) (Some (fc_dim self)))
     \<or> isl (nn_Linear (Some (fc_dim self)) (config.num_classes self))"
    by (auto simp: nn_Linear_def split: option.splits)
  then show ?thesis
    unfolding sel by (auto split: sum.splits)
qed

text \<open>
  Claim C1, as the counterexample below forces it to be read. Whatever arguments
  \<open>define_classifier\<close> is called with, the classifier follows the configuration of the
  module. With \<open>fc_depth \<le> 0\<close> it is the identity and returns its input. With
  \<open>fc_depth = 1\<close>, a width \<open>conv_dim\<close> that is not negative and a number of classes that is
  given and not negative, it is the single layer \<open>fc\<close> from \<open>conv_dim\<close> to \<open>num_classes\<close>,
  whose parameters are a weight of shape \<open>(num_classes, conv_dim)\<close> and a bias of length
  \<open>num_classes\<close>. With \<open>fc_depth > 1\<close>, widths \<open>conv_dim\<close> and \<open>fc_dim\<close> that are not negative
  and a number of classes that is given and not negative, it is \<open>fc_depth\<close> linear layers,
  each but the last followed by ReLU and dropout, the first reading \<open>conv_dim\<close>, the hidden
  widths \<open>fc_dim\<close>, the last writing \<open>num_classes\<close>, named \<open>fc1\<close>, \<open>relu1\<close>, \<open>dropout1\<close>,
  \<open>fc2\<close>, ... in order. With \<open>fc_depth \<ge> 1\<close> and any other sizes, \<open>define_classifier\<close> raises
  and builds no classifier.
\<close>

theorem C1_define_classifier_policy:
  "(fc_depth self \<le> 0 \<longrightarrow>
      define_classifier self a b c d = Inr Identity \<and>
      classifier_forward run Identity x = x) \<and>
   (fc_depth self = 1 \<and> 0 \<le> conv_dim self \<and> config.num_classes self = Some nc \<and> 0 \<le> nc \<longrightarrow>
      (\<exists>cl. define_classifier self a b c d = Inr cl \<and>
         named_children cl = [(''fc'', Linear (conv_dim self) nc)] \<and>
         classifier_parameters cl = [(''fc.weight'', [nc, conv_dim self]), (''fc.bias'', [nc])])) \<and>
   (1 < fc_depth self \<and> 0 \<le> conv_dim self \<and> 0 \<le> fc_dim self
      \<and> config.num_classes self = Some nc \<and> 0 \<le> nc \<longrightarrow>
      (\<exists>cl. define_classifier self a b c d = Inr cl \<and>
         map snd (named_children cl) =
           [Linear (conv_dim self) (fc_dim self), ReLU, Dropout]
           @ concat (replicate (nat (fc_depth self - 2))
                       [Linear (fc_dim self) (fc_dim self), ReLU, Dropout])
           @ [Linear (fc_dim self) nc] \<and>
         map fst (named_children cl) =
           [''fc1'', ''relu1'', ''dropout1'']
           @ concat (map (\<lambda>i. [''fc'' @ str_int (int i + 2), ''relu'' @ str_int (int i + 2),
                                 ''dropout'' @ str_int (int i + 2)])
                       [0 ..< nat (fc_depth self - 2)])
           @ [''fc'' @ str_int (fc_depth self)] \<and>
         int (length (filter is_Linear (map snd (named_children cl)))) = fc_depth self)) \<and>
   (1 \<le> fc_depth self \<and>
      (config.num_classes self = None \<or> (\<exists>n. config.num_classes self = Some n \<and> n < 0)
       \<or> conv_dim self < 0 \<or> (1 < fc_depth self \<and> fc_dim self < 0)) \<longrightarrow>
      isl (define_classifier self a b c d))"
proof (intro conjI impI)
  assume "fc_depth self \<le> 0"
  then show "define_classifier self a b c d = Inr Identity"
    by (simp add: define_classifier_def)
  show "classifier_forward run Identity x = x"
    by simp
next
  assume "fc_depth self = 1 \<and> 0 \<le> conv_dim self \<and> config.num_classes self = Some nc \<and> 0 \<le> nc"
  then have "define_classifier self a b c d
      = Inr (Sequential [(''fc'', Linear (conv_dim self) nc)])"
    by (simp add: define_classifier_one)
  then show "\<exists>cl. define_classifier self a b c d = Inr cl \<and>
         named_children cl = [(''fc'', Linear (conv_dim self) nc)] \<and>
         classifier_parameters cl = [(''fc.weight'', [nc, conv_dim self]), (''fc.bias'', [nc])]"
    by simp
next
  assume h: "1 < fc_depth self \<and> 0 \<le> conv_dim self \<and> 0 \<le> fc_dim self
      \<and> config.num_classes self = Some nc \<and> 0 \<le> nc"
  then have deep: "1 < fc_depth self" by simp
  from h have dc: "define_classifier self a b c d = Inr (Sequential (
               [(''fc1'', Linear (conv_dim self) (fc_dim self)),
                (''relu1'', ReLU),
                (''dropout1'', Dropout)]
               @ concat (map (\<lambda>i. [(''fc'' @ str_int (int i + 2), Linear (fc_dim self) (fc_dim self)),
                                     (''relu'' @ str_int (int i + 2), ReLU),
                                     (''dropout'' @ str_int (int i + 2), Dropout)])
                           [0 ..< nat (fc_depth self - 2)])
               @ [(''fc'' @ str_int (fc_depth self), Linear (fc_dim self) nc)]))"
    by (simp add: define_classifier_deep)
  show "\<exists>cl. define_classifier self a b c d = Inr cl \<and>
         map snd (named_children cl) =
           [Linear (conv_dim self) (fc_dim self), ReLU, Dropout]
           @ concat (replicate (nat (fc_depth self - 2))
                       [Linear (fc_dim self) (fc_dim self), ReLU, Dropout])
           @ [Linear (fc_dim self) nc] \<and>
         map fst (named_children cl) =
           [''fc1'', ''relu1'', ''dropout1'']
           @ concat (map (\<lambda>i. [''fc'' @ str_int (int i + 2), ''relu'' @ str_int (int i + 2),
                                 ''dropout'' @ str_int (int i + 2)])
                       [0 ..< nat (fc_depth self - 2)])
           @ [''fc'' @ str_int (fc_depth self)] \<and>
         int (length (filter is_Linear (map snd (named_children cl)))) = fc_depth self"
    unfolding dc using deep
    by (simp add: hidden_layers_layers hidden_layers_names count_linear_hidden filter_map)
next
  assume "1 \<le> fc_depth self \<and>
      (config.num_classes self = None \<or> (\<exists>n. config.num_classes self = Some n \<and> n < 0)
       \<or> conv_dim self < 0 \<or> (1 < fc_depth self \<and> fc_dim self < 0))"
  then show "isl (define_classifier self a b c d)"
    using define_classifier_raises[of self a b c d] by blast
qed

theorem C1_define_classifier_policy_witness:
  "define_classifier \<lparr>conv_depth = 0, conv_dim = 8, fc_depth = 0, fc_dim = 4, num_classes = None\<rparr>
      None None None None = Inr Identity \<and>
   (\<exists>cl. define_classifier
      \<lparr>conv_depth = 0, conv_dim = 8, fc_depth = 1, fc_dim = 4, num_classes = Some 2\<rparr>
      None None None None = Inr cl \<and>
      classifier_parameters cl = [(''fc.weight'', [2, 8]), (''fc.bias'', [2])]) \<and>
   (\<exists>cl. define_classifier
      \<lparr>conv_depth = 0, conv_dim = 8, fc_depth = 3, fc_dim = 4, num_classes = Some 2\<rparr>
      None None None None = Inr cl \<and>
      map snd (named_children cl) =
        [Linear 8 4, ReLU, Dropout, Linear 4 4, ReLU, Dropout, Linear 4 2]) \<and>
   isl (define_classifier
      \<lparr>conv_depth = 0, conv_dim = 8, fc_depth = 3, fc_dim = - 4, num_classes = Some 2\<rparr>
      None None None None)"
  using
    C1_define_classifier_policy[of
      "\<lparr>conv_depth = 0, conv_dim = 8, fc_depth = 0, fc_dim = 4, num_classes = None\<rparr>"
      None None None None "\<lambda>l y. y" "0::nat" 2]
    C1_define_classifier_policy[of
      "\<lparr>conv_depth = 0, conv_dim = 8, fc_depth = 1, fc_dim = 4, num_classes = Some 2\<rparr>"
      None None None None "\<lambda>l y. y" "0::nat" 2]
    C1_define_classifier_policy[of
      "\<lparr>conv_depth = 0, conv_dim = 8, fc_depth = 3, fc_dim = 4, num_classes = Some 2\<rparr>"
      None None None None "\<lambda>l y. y" "0::nat" 2]
    C1_define_classifier_policy[of
      "\<lparr>conv_depth = 0, conv_dim = 8, fc_depth = 3, fc_dim = - 4, num_classes = Some 2\<rparr>"
      None None None None "\<lambda>l y. y" "0::nat" 2]
  by auto

text \<open>
  The claim says "for every configuration". A module configured with one linear layer and
  \<open>num_classes\<close> left at its default \<open>None\<close> gets no classifier: \<open>nn.Linear(8, None)\<close>
  raises \<open>TypeError\<close>. Neither does one with a negative width: \<open>nn.Linear(-3, 2)\<close> raises
  \<open>RuntimeError\<close>.
\<close>

theorem C1_counterexample:
  "define_classifier \<lparr>conv_depth = 0, conv_dim = 8, fc_depth = 1, fc_dim = 0, num_classes = None\<rparr>
      None None None None
     = Inl (TypeError ''empty() received an invalid combination of arguments'') \<and>
   define_classifier \<lparr>conv_depth = 0, conv_dim = - 3, fc_depth = 1, fc_dim = 0, num_classes = Some 2\<rparr>
      None None None None
     = Inl (RuntimeError ''Trying to create tensor with negative dimension'')"
  by (simp add: define_classifier_def nn_Linear_def)

section \<open>Properties of the wrapper\<close>

subsection \<open>What the state-changing operations leave alone\<close>

lemma set_requires_grad_keys: "map fst (set_requires_grad k ps) = map fst ps"
  by (induction ps) (auto simp: set_requires_grad_def)

lemma activate_params_fields:
  "activate_params self g = self\<lparr>net := net (activate_params self g)\<rparr>"
  by (simp add: activate_params_def Let_def)





lemma load_state_dict_training:
  "training (snd (load_state_dict prefix n d)) = training n"
  by (simp add: load_state_dict_def Let_def)

lemma load_file_fields:
  "snd (load_file self files p features) = self\<lparr>net := net (snd (load_file self files p features))\<rparr>"
  by (simp add: load_file_def split_beta Let_def split: sum.splits)

lemma load_fields:
  "snd (load self files fp fo sf features) = self\<lparr>net := net (snd (load self files fp fo sf features))\<rparr>"
  using load_file_fields
  by (simp add: load_def load_official_weights_def split: option.splits sum.splits prod.splits)




text \<open>
  A rule for \<open>__init__\<close>: what holds of the wrapper after \<open>activate_params([])\<close> and is
  kept by \<open>load\<close> holds before the final \<open>eval()\<close>.
\<close>

lemma Model_init_rule:
  assumes init: "Model_init e files model_class a = Inr self"
    and base: "\<And>folder n_classes weights built.
      dataset_defaults e a = Inr (folder, n_classes, weights) \<Longrightarrow>
      model_class n_classes = Inr built \<Longrightarrow>
      P (activate_params
          \<lparr>name = arg_name a, dataset = arg_dataset a, suffix = arg_suffix a,
           pretrain = arg_pretrain a, official = arg_official a,
           randomized_smooth = arg_randomized_smooth a, rs_sigma = arg_rs_sigma a,
           rs_n = arg_rs_n a, sgm = arg_sgm a, sgm_gamma = arg_sgm_gamma a,
           num_classes = n_classes, loss_weights = weights, folder_path = folder,
           net = built\<rparr> [])"
    and step: "\<And>m fp. P m \<Longrightarrow> P (snd (load m files fp None None True))"
    and fin: "\<And>m. P m \<Longrightarrow> Q (eval_mode m)"
  shows "Q self"
proof -
  from init obtain folder n_classes weights where
    dd: "dataset_defaults e a = Inr (folder, n_classes, weights)"
    by (auto simp: Model_init_def split: sum.splits)
  with init obtain built where mc: "model_class n_classes = Inr built"
    by (auto simp: Model_init_def split: sum.splits)
  define self1 where "self1 = activate_params
          \<lparr>name = arg_name a, dataset = arg_dataset a, suffix = arg_suffix a,
           pretrain = arg_pretrain a, official = arg_official a,
           randomized_smooth = arg_randomized_smooth a, rs_sigma = arg_rs_sigma a,
           rs_n = arg_rs_n a, sgm = arg_sgm a, sgm_gamma = arg_sgm_gamma a,
           num_classes = n_classes, loss_weights = weights, folder_path = folder,
           net = built\<rparr> []"
  have p1: "P self1" unfolding self1_def by (rule base[OF dd mc])
  define r2 where "r2 = (if arg_official a then load self1 files (Some ''official'') None None True
                         else (Inr (), self1))"
  define r3 where "r3 = (if arg_pretrain a then load (snd r2) files None None None True
                         else (Inr (), snd r2))"
  have p2: "P (snd r2)" using p1 step[of self1 "Some ''official''"] by (simp add: r2_def)
  have p3: "P (snd r3)" using p2 step[of "snd r2" None] by (simp add: r3_def)
  from init have "self = eval_mode (snd r3)"
    by (auto simp: Model_init_def dd mc Let_def self1_def r2_def r3_def
             split: sum.splits prod.splits if_splits)
  with p3 show ?thesis by (simp add: fin)
qed


lemma load_loss_weights:
  "loss_weights (snd (load self files fp fo sf features)) = loss_weights self"
  by (subst load_fields) simp

lemma activate_params_loss_weights:
  "loss_weights (activate_params self g) = loss_weights self"
  by (subst activate_params_fields) simp

lemma Model_init_loss_weights:
  assumes init: "Model_init e files model_class a = Inr self"
    and nods: "arg_dataset a = DS_None"
  shows "loss_weights self = arg_loss_weights a"
  using init
proof (rule Model_init_rule[where P = "\<lambda>m. loss_weights m = arg_loss_weights a"])
  fix folder n_classes weights built
  assume "dataset_defaults e a = Inr (folder, n_classes, weights)"
  with nods have "weights = arg_loss_weights a" by (simp add: dataset_defaults_def)
  then show "loss_weights (activate_params
          \<lparr>name = arg_name a, dataset = arg_dataset a, suffix = arg_suffix a,
           pretrain = arg_pretrain a, official = arg_official a,
           randomized_smooth = arg_randomized_smooth a, rs_sigma = arg_rs_sigma a,
           rs_n = arg_rs_n a, sgm = arg_sgm a, sgm_gamma = arg_sgm_gamma a,
           num_classes = n_classes, loss_weights = weights, folder_path = folder,
           net = built\<rparr> []) = arg_loss_weights a"
    by (simp add: activate_params_loss_weights)
qed (simp_all add: load_loss_weights eval_mode_def)

text \<open>
  Claim C10. A wrapper built with no dataset and \<open>loss_weights\<close> left at its default
  keeps the string \<open>'dataset'\<close> in \<open>self.loss_weights\<close>, and then every call of its
  criterion, on any output and any label, raises \<open>AttributeError\<close> instead of returning a
  loss.
\<close>

theorem C10_sentinel_loss_weights:
  assumes "Model_init e files model_class a = Inr self"
    and "arg_dataset a = DS_None"
    and "arg_loss_weights a = LW_Str ''dataset''"
  shows "loss_weights self = LW_Str ''dataset'' \<and>
         criterion self CrossEntropyLoss output label =
           Inl (AttributeError ''str object has no attribute device'')"
  using Model_init_loss_weights[OF assms(1,2)] assms(3)
  by (simp add: criterion_def define_criterion_def)

lemma ex_init:
  "Model_init \<lparr>data_dir = ''data/'', num_gpus = 0\<rparr> Map.empty (\<lambda>n. Inr ex_network) ex_args
     = Inr ex_model"
  by (simp add: Model_init_def dataset_defaults_def ex_args_def ex_network_def ex_model_def
        activate_params_def get_parallel_def eval_mode_def Let_def)

theorem C10_sentinel_loss_weights_witness:
  "Model_init \<lparr>data_dir = ''data/'', num_gpus = 0\<rparr> Map.empty (\<lambda>n. Inr ex_network) ex_args
     = Inr ex_model \<and>
   loss_weights ex_model = LW_Str ''dataset'' \<and>
   criterion ex_model (\<lambda>w (output :: logits) (label :: int list). 0)
       \<lparr>ncols = 2, rows = [[1, 2]]\<rparr> [1]
     = Inl (AttributeError ''str object has no attribute device'')"
  using C10_sentinel_loss_weights[OF ex_init, of "\<lambda>w output label. 0"
      "\<lparr>ncols = 2, rows = [[1, 2]]\<rparr>" "[1]"] ex_init
  by (simp add: ex_args_def)

subsection \<open>\<open>load\<close> on a missing file\<close>

lemma load_file_missing:
  "\<not> exists files p \<Longrightarrow>
   load_file self files p features = (Inl (FileNotFoundError (''Model file not exist: '' @ p)), self)"
  by (simp add: load_file_def)


text \<open>
  Claim C4, as amended. \<open>load\<close> on a path that does not exist raises \<open>FileNotFoundError\<close>
  with the message \<open>Model file not exist: \<close> followed by the path, and returns the wrapper
  as it was, whether the path is given (and is not the reserved word \<open>official\<close>) or is the
  default derived from folder, name and suffix.
\<close>

theorem C4_load_missing_file:
  "(fp \<noteq> ''official'' \<and> \<not> exists files fp \<longrightarrow>
      load self files (Some fp) fo sf features
        = (Inl (FileNotFoundError (''Model file not exist: '' @ fp)), self)) \<and>
   (default_file_path self fo sf = Inr (p, d) \<and> \<not> exists files p \<longrightarrow>
      load self files None fo sf features
        = (Inl (FileNotFoundError (''Model file not exist: '' @ p)), self))"
  by (simp add: load_def load_file_missing)

theorem C4_load_missing_file_witness:
  "''ckpt/other.pth'' \<noteq> ''official'' \<and> \<not> exists Map.empty ''ckpt/other.pth'' \<and>
   load ex_model Map.empty (Some ''ckpt/other.pth'') None None True
     = (Inl (FileNotFoundError ''Model file not exist: ckpt/other.pth''), ex_model) \<and>
   default_file_path ex_model None None = Inr (''ckpt/net.pth'', ''ckpt/'') \<and>
   \<not> exists Map.empty ''ckpt/net.pth'' \<and>
   load ex_model Map.empty None None None True
     = (Inl (FileNotFoundError ''Model file not exist: ckpt/net.pth''), ex_model)"
  using C4_load_missing_file[of "''ckpt/other.pth''" Map.empty ex_model None None True
          "''ckpt/net.pth''" "''ckpt/''"]
  by (simp add: default_file_path_def ex_model_def exists_def)

text \<open>
  The claim as stated fails at the path \<open>official\<close>: no such file exists, yet \<open>load\<close>
  raises \<open>NotImplementedError\<close> and never looks at the file system.
\<close>

theorem C4_counterexample:
  "\<not> exists Map.empty ''official'' \<and>
   load ex_model Map.empty (Some ''official'') None None True
     = (Inl (NotImplementedError ''net has no official weights.''), ex_model)"
  by (simp add: load_def load_official_weights_def ex_model_def exists_def)

subsection \<open>The default checkpoint path\<close>




subsection \<open>Saving and loading back\<close>

lemma own_parameters_all: "own_parameters [] n = named_parameters n"
  by (simp add: own_parameters_def split_beta)

lemma state_dict_all: "state_dict [] n = map (\<lambda>(k, p). (k, value p)) (named_parameters n)"
  by (simp add: state_dict_def own_parameters_all)

lemma dirname_official: "dirname ''official'' = []"
  by (simp add: dirname_def)

text \<open>What a successful \<open>save\<close> of the full state leaves at the path it resolved.\<close>

lemma save_full_success:
  assumes "save self files fp fo sf True = (Inr (), files')"
  obtains p where
    "fp = Some p \<and> p \<noteq> ''official'' \<or> fp = None \<and> (\<exists>d. default_file_path self fo sf = Inr (p, d))"
    "files' p = Some (Checkpoint (state_dict [] (net self)))" "p \<noteq> []"
proof (cases fp)
  case None
  with assms obtain p d where dp: "default_file_path self fo sf = Inr (p, d)"
    by (auto simp: save_def split: sum.splits)
  with assms None have "files' p = Some (Checkpoint (state_dict [] (net self)))" "p \<noteq> []"
    by (auto simp: save_def torch_save_def split: sum.splits if_splits)
  with None dp that show ?thesis by blast
next
  case (Some p)
  have "p \<noteq> ''official''"
  proof
    assume "p = ''official''"
    with assms Some show False
      by (simp add: save_def dirname_official exists_def makedirs_def)
  qed
  moreover from assms Some have
    "files' p = Some (Checkpoint (state_dict [] (net self)))" "p \<noteq> []"
    by (auto simp: save_def torch_save_def split: sum.splits if_splits)
  ultimately show ?thesis using Some that by blast
qed

text \<open>
  Loading a state dictionary into a network with the same keys and shapes: no error, and
  every value is replaced by the stored one.
\<close>

lemma map_of_nth:
  assumes "distinct (map fst xs)" "i < length xs"
  shows "map_of xs (fst (xs ! i)) = Some (snd (xs ! i))"
  using assms by (metis map_of_is_SomeI nth_mem prod.collapse)

lemma load_back:
  fixes ps ps' :: "(string \<times> param) list"
  assumes dist: "distinct (map fst ps)"
    and same: "map (\<lambda>(k, p). (k, fst (value p))) ps' = map (\<lambda>(k, p). (k, fst (value p))) ps"
    and d: "d = map (\<lambda>(k, p). (k, value p)) ps"
  shows "map (\<lambda>(k, p). (k, value p)) (map (load_param [] d) ps') = d"
    and "\<not> list_ex (\<lambda>(k, p). case map_of d k of None \<Rightarrow> True | Some w \<Rightarrow> fst w \<noteq> fst (value p)) ps'"
    and "\<not> list_ex (\<lambda>(k, w). map_of ps' k = None) d"
proof -
  have len: "length ps' = length ps" using same by (metis length_map)
  have dd: "distinct (map fst d)" using dist by (simp add: d split_beta comp_def)
  have nth_same: "fst (ps' ! i) = fst (ps ! i) \<and> fst (value (snd (ps' ! i))) = fst (value (snd (ps ! i)))"
    if "i < length ps" for i
  proof -
    have "map (\<lambda>(k, p). (k, fst (value p))) ps' ! i = map (\<lambda>(k, p). (k, fst (value p))) ps ! i"
      by (simp add: same)
    with that len show ?thesis by (simp add: split_beta)
  qed
  have look: "map_of d (fst (ps' ! i)) = Some (value (snd (ps ! i)))" if "i < length ps" for i
  proof -
    have "i < length d" using that by (simp add: d)
    from map_of_nth[OF dd this] that nth_same[OF that] show ?thesis
      by (simp add: d split_beta)
  qed
  show "map (\<lambda>(k, p). (k, value p)) (map (load_param [] d) ps') = d"
  proof (rule nth_equalityI)
    show "length (map (\<lambda>(k, p). (k, value p)) (map (load_param [] d) ps')) = length d"
      by (simp add: len d)
    fix i assume "i < length (map (\<lambda>(k, p). (k, value p)) (map (load_param [] d) ps'))"
    then have i: "i < length ps" by (simp add: len)
    with look[OF i] nth_same[OF i] len
    show "map (\<lambda>(k, p). (k, value p)) (map (load_param [] d) ps') ! i = d ! i"
      by (simp add: load_param_def d split_beta)
  qed
  show "\<not> list_ex (\<lambda>(k, p). case map_of d k of None \<Rightarrow> True | Some w \<Rightarrow> fst w \<noteq> fst (value p)) ps'"
  proof -
    have "case map_of d (fst kp) of None \<Rightarrow> False | Some w \<Rightarrow> fst w = fst (value (snd kp))"
      if "kp \<in> set ps'" for kp
    proof -
      from that obtain i where i: "i < length ps'" "kp = ps' ! i" by (metis in_set_conv_nth)
      with len look[of i] nth_same[of i] show ?thesis by simp
    qed
    then have good: "\<And>kp. kp \<in> set ps' \<Longrightarrow>
        case map_of d (fst kp) of None \<Rightarrow> False | Some w \<Rightarrow> fst w = fst (value (snd kp))" .
    show ?thesis
    proof
      assume "list_ex (\<lambda>(k, p). case map_of d k of None \<Rightarrow> True
                                | Some w \<Rightarrow> fst w \<noteq> fst (value p)) ps'"
      then obtain kp where kp: "kp \<in> set ps'"
        and bad: "case map_of d (fst kp) of None \<Rightarrow> True
                  | Some w \<Rightarrow> fst w \<noteq> fst (value (snd kp))"
        by (auto simp: list_ex_iff split_beta)
      from good[OF kp] bad show False by (cases "map_of d (fst kp)") simp_all
    qed
  qed
  show "\<not> list_ex (\<lambda>(k, w). map_of ps' k = None) d"
  proof -
    have "fst ` set ps' = fst ` set d"
    proof -
      have "map fst ps' = map fst (map (\<lambda>(k, p). (k, fst (value p))) ps')"
        by (simp add: split_beta comp_def)
      also have "\<dots> = map fst d" by (simp add: same d split_beta comp_def)
      finally show ?thesis by (metis set_map)
    qed
    then have known: "map_of ps' k \<noteq> None" if "k \<in> fst ` set d" for k
      using that by (simp add: map_of_eq_None_iff)
    show ?thesis
    proof
      assume "list_ex (\<lambda>(k, w). map_of ps' k = None) d"
      then obtain kw where "kw \<in> set d" and "map_of ps' (fst kw) = None"
        by (auto simp: list_ex_iff split_beta)
      with known[of "fst kw"] show False by simp
    qed
  qed
qed

text \<open>
  Claim C5. If saving the full state of a model succeeds, then after any change of the
  parameter values (names and shapes kept; flags and mode may change too), loading with
  the same path arguments succeeds and makes the full state equal to the saved one, bit
  for bit.
\<close>

theorem C5_save_load_roundtrip:
  assumes saved: "save self files fp fo sf True = (Inr (), files')"
    and dist: "distinct (map fst (named_parameters (net self)))"
    and same_path: "name self' = name self" "suffix self' = suffix self"
                   "folder_path self' = folder_path self"
    and same_shapes: "map (\<lambda>(k, p). (k, fst (value p))) (named_parameters (net self'))
                    = map (\<lambda>(k, p). (k, fst (value p))) (named_parameters (net self))"
  shows "fst (load self' files' fp fo sf True) = Inr () \<and>
         state_dict [] (net (snd (load self' files' fp fo sf True))) = state_dict [] (net self)"
proof -
  from saved obtain p where
    p: "fp = Some p \<and> p \<noteq> ''official'' \<or> fp = None \<and> (\<exists>d. default_file_path self fo sf = Inr (p, d))"
    and stored: "files' p = Some (Checkpoint (state_dict [] (net self)))" and ne: "p \<noteq> []"
    by (rule save_full_success)
  have dp: "default_file_path self' fo sf = default_file_path self fo sf"
    by (simp add: default_file_path_def same_path cong: option.case_cong)
  have l: "load self' files' fp fo sf True = load_file self' files' p True"
    using p by (auto simp: load_def dp)
  note lb = load_back[OF dist same_shapes state_dict_all]
  have "\<not> load_errors [] (net self') (state_dict [] (net self))"
    using lb(2,3) by (simp add: load_errors_def own_parameters_all)
  with lb(1) stored ne show ?thesis
    by (simp add: l load_file_def exists_def torch_load_def load_state_dict_def Let_def
          state_dict_all)
qed

lemma ex_save: "save ex_model Map.empty None None None True = (Inr (), ex_files)"
  by (simp add: save_def default_file_path_def ex_model_def exists_def makedirs_def
        torch_save_def state_dict_def own_parameters_def ex_files_def)

theorem C5_save_load_roundtrip_witness:
  "save ex_model Map.empty None None None True = (Inr (), ex_files) \<and>
   state_dict [] (net ex_perturbed) \<noteq> state_dict [] (net ex_model) \<and>
   fst (load ex_perturbed ex_files None None None True) = Inr () \<and>
   state_dict [] (net (snd (load ex_perturbed ex_files None None None True)))
     = [(''features.weight'', ([1], [1])), (''classifier.fc.weight'', ([2], [2, 3]))]"
proof -
  have 1: "distinct (map fst (named_parameters (net ex_model)))"
    by (simp add: ex_model_def)
  have 2: "name ex_perturbed = name ex_model" "suffix ex_perturbed = suffix ex_model"
    "folder_path ex_perturbed = folder_path ex_model"
    by (simp_all add: ex_perturbed_def)
  have 3: "map (\<lambda>(k, p). (k, fst (value p))) (named_parameters (net ex_perturbed))
         = map (\<lambda>(k, p). (k, fst (value p))) (named_parameters (net ex_model))"
    by (simp add: ex_perturbed_def ex_model_def)
  have 4: "state_dict [] (net ex_model)
         = [(''features.weight'', ([1], [1])), (''classifier.fc.weight'', ([2], [2, 3]))]"
    by (simp add: state_dict_all ex_model_def)
  have 5: "state_dict [] (net ex_perturbed) \<noteq> state_dict [] (net ex_model)"
    by (simp add: state_dict_all ex_model_def ex_perturbed_def)
  from C5_save_load_roundtrip[OF ex_save 1 2 3] 4 5 ex_save show ?thesis by simp
qed

subsection \<open>The network after construction and after training\<close>








subsection \<open>Randomized smoothing with one sample and no noise\<close>

lemma add_noise_zero: "add_noise x 0 z = x"
  by (simp add: add_noise_def map_nth)

lemma stack_mean_single: "stack_mean [t] = Inr t"
proof -
  have "map (map (\<lambda>s :: real. s)) (rows t) = rows t"
    by (induction "rows t") simp_all
  then show ?thesis by (simp add: stack_mean_def)
qed

text \<open>
  Claim C6. When randomized smoothing is in force, by argument or else by the wrapper's
  setting, with one sample and standard deviation zero, \<open>get_logits\<close> returns what it
  returns with smoothing switched off: the single forward pass of the network on the
  input. The network is a function, so it is deterministic.
\<close>

theorem C6_smoothing_reduces_to_forward:
  assumes "(case rs of None \<Rightarrow> randomized_smooth self | Some b \<Rightarrow> b)"
    and "(case sigma of None \<Rightarrow> rs_sigma self | Some s \<Rightarrow> s) = 0"
    and "(case n of None \<Rightarrow> rs_n self | Some k \<Rightarrow> k) = 1"
  shows "get_logits self forward noise input rs sigma n
           = get_logits self forward noise input (Some False) sigma' n' \<and>
         get_logits self forward noise input rs sigma n = Inr (forward input)"
  using assms by (simp add: get_logits_def add_noise_zero stack_mean_single)

theorem C6_smoothing_reduces_to_forward_witness:
  "get_logits ex_model (\<lambda>x. \<lparr>ncols = 2, rows = [[vals x ! 0, 2 * vals x ! 0]]\<rparr>)
       (\<lambda>k i. 1) \<lparr>shape = [1, 1], vals = [3]\<rparr> (Some True) (Some 0) (Some 1)
     = get_logits ex_model (\<lambda>x. \<lparr>ncols = 2, rows = [[vals x ! 0, 2 * vals x ! 0]]\<rparr>)
       (\<lambda>k i. 1) \<lparr>shape = [1, 1], vals = [3]\<rparr> (Some False) None None \<and>
   get_logits ex_model (\<lambda>x. \<lparr>ncols = 2, rows = [[vals x ! 0, 2 * vals x ! 0]]\<rparr>)
       (\<lambda>k i. 1) \<lparr>shape = [1, 1], vals = [3]\<rparr> (Some True) (Some 0) (Some 1)
     = Inr \<lparr>ncols = 2, rows = [[3, 6]]\<rparr>"
  using C6_smoothing_reduces_to_forward[where rs = "Some True" and self = ex_model
      and sigma = "Some 0" and n = "Some 1"
      and forward = "\<lambda>x. \<lparr>ncols = 2, rows = [[vals x ! 0, 2 * vals x ! 0]]\<rparr>"
      and noise = "\<lambda>k i. 1" and input = "\<lparr>shape = [1, 1], vals = [3]\<rparr>"
      and sigma' = None and n' = None]
  by (simp add: get_logits_def)

subsection \<open>Ranking the classes of a row of logits\<close>

lemma argsort_desc_mset: "mset (argsort_desc r) = mset [0 ..< length r]"
  by (simp add: argsort_desc_def)

lemma argsort_desc_length: "length (argsort_desc r) = length r"
  by (simp add: argsort_desc_def)

lemma argsort_desc_distinct: "distinct (argsort_desc r)"
  by (simp add: argsort_desc_def)

lemma argsort_desc_set: "set (argsort_desc r) = {0 ..< length r}"
  by (simp add: argsort_desc_def)

text \<open>Reading the scores in the order of \<open>argsort_desc\<close> gives them from the highest down.\<close>

lemma argsort_desc_scores: "map ((!) r) (argsort_desc r) = top_scores r"
proof -
  let ?ys = "map ((!) r) (argsort_desc r)"
  have "sorted (map (\<lambda>i. - (r ! i)) (argsort_desc r))"
    unfolding argsort_desc_def by (rule sorted_sort_key)
  then have "sorted_wrt (\<lambda>x y. - x \<le> - y) ?ys"
    by (simp add: sorted_wrt_map)
  then have "sorted_wrt (\<lambda>x y. y \<le> x) ?ys" by simp
  then have s: "sorted (rev ?ys)" by (simp add: sorted_wrt_rev)
  have "mset ?ys = image_mset ((!) r) (mset (argsort_desc r))" by simp
  also have "\<dots> = image_mset ((!) r) (mset [0 ..< length r])"
    by (simp only: argsort_desc_mset)
  also have "\<dots> = mset (map ((!) r) [0 ..< length r])" by simp
  also have "\<dots> = mset r" by (simp only: map_nth)
  finally have "mset (rev ?ys) = mset r" by simp
  from properties_for_sort[OF this s] have "sort r = rev ?ys" .
  then show ?thesis by (simp add: top_scores_def)
qed

lemma top_scores_nth:
  assumes "k < length r"
  shows "top_scores r ! k = r ! (argsort_desc r ! k)"
proof -
  have "top_scores r ! k = map ((!) r) (argsort_desc r) ! k"
    by (simp only: argsort_desc_scores)
  with assms show ?thesis by (simp add: argsort_desc_length)
qed

lemma argmax_top:
  assumes "0 < length r"
  shows "r ! argmax r = top_scores r ! 0"
proof -
  from assms have "argsort_desc r \<noteq> []" using argsort_desc_length[of r] by auto
  then have "argmax r = argsort_desc r ! 0" by (simp add: argmax_def hd_conv_nth)
  with top_scores_nth[OF assms] show ?thesis by simp
qed

lemma generate_target_runner_up:
  assumes "generate_target self forward noise input 1 False = Inr target"
  shows "\<exists>output. get_logits self forward noise
            (if length (shape input) = 3 then input\<lparr>shape := 1 # shape input\<rparr> else input)
            None None None = Inr output
          \<and> 1 < ncols output
          \<and> target = map (\<lambda>r. argsort_desc r ! 1) (rows output)"
  using assms
  by (auto simp: generate_target_def Let_def py_index_def split: sum.splits if_splits)

text \<open>
  Claim C7. Let \<open>generate_target\<close> with \<open>idx = 1\<close> return the targets of a batch whose
  logits have one score per class. For every example whose highest and second-highest
  scores differ, the target is not the argmax of the example's logits: the target's score
  is the second-highest, the argmax's the highest.
\<close>

theorem C7_target_is_runner_up:
  assumes gt: "generate_target self forward noise input 1 False = Inr target"
    and out: "get_logits self forward noise
               (if length (shape input) = 3 then input\<lparr>shape := 1 # shape input\<rparr> else input)
               None None None = Inr output"
    and i: "i < length (rows output)"
    and wf: "length (rows output ! i) = ncols output"
    and differ: "top_scores (rows output ! i) ! 0 \<noteq> top_scores (rows output ! i) ! 1"
  shows "length target = length (rows output) \<and>
         target ! i < ncols output \<and>
         target ! i \<noteq> argmax (rows output ! i) \<and>
         (rows output ! i) ! (target ! i) = top_scores (rows output ! i) ! 1 \<and>
         (rows output ! i) ! argmax (rows output ! i) = top_scores (rows output ! i) ! 0"
proof -
  let ?r = "rows output ! i"
  from generate_target_runner_up[OF gt] out
  have n: "1 < ncols output" and t: "target = map (\<lambda>r. argsort_desc r ! 1) (rows output)"
    by auto
  from t i have ti: "target ! i = argsort_desc ?r ! 1" by simp
  from n wf have len: "1 < length ?r" by simp
  then have "argsort_desc ?r ! 1 \<in> set (argsort_desc ?r)"
    by (simp add: argsort_desc_length)
  then have bound: "target ! i < ncols output"
    by (simp add: ti argsort_desc_set wf)
  from len have second: "?r ! (target ! i) = top_scores ?r ! 1"
    by (simp add: ti top_scores_nth)
  from len have "0 < length ?r" by linarith
  then have first: "?r ! argmax ?r = top_scores ?r ! 0"
    by (rule argmax_top)
  from first second differ have "target ! i \<noteq> argmax ?r" by auto
  with t bound second first show ?thesis by simp
qed

theorem C7_target_is_runner_up_witness:
  "generate_target ex_model (\<lambda>x. \<lparr>ncols = 3, rows = [[1, 5, 3], [4, 2, 0]]\<rparr>) (\<lambda>k j. 0)
      \<lparr>shape = [2, 1, 1, 1], vals = [0, 0]\<rparr> 1 False = Inr [2, 1] \<and>
   top_scores [1, 5, 3] = [5, 3, 1] \<and>
   argmax [1, 5, 3] = 1 \<and>
   [2, 1] ! 0 \<noteq> argmax [1, 5, 3 :: real] \<and>
   [1, 5, 3 :: real] ! ([2, 1] ! 0) = top_scores [1, 5, 3] ! 1"
proof -
  have g: "generate_target ex_model (\<lambda>x. \<lparr>ncols = 3, rows = [[1, 5, 3], [4, 2, 0]]\<rparr>) (\<lambda>k j. 0)
      \<lparr>shape = [2, 1, 1, 1], vals = [0, 0]\<rparr> 1 False = Inr [2, 1]"
    by (simp add: generate_target_def get_logits_def ex_model_def py_index_def argsort_desc_def
          Let_def upt_rec)
  have o: "get_logits ex_model (\<lambda>x. \<lparr>ncols = 3, rows = [[1, 5, 3], [4, 2, 0]]\<rparr>) (\<lambda>k j. 0)
      (if length (shape \<lparr>shape = [2, 1, 1, 1], vals = [0, 0]\<rparr>) = 3
       then \<lparr>shape = [2, 1, 1, 1], vals = [0, 0]\<rparr>\<lparr>shape := 1 # shape \<lparr>shape = [2, 1, 1, 1], vals = [0, 0]\<rparr>\<rparr>
       else \<lparr>shape = [2, 1, 1, 1], vals = [0, 0]\<rparr>) None None None
      = Inr \<lparr>ncols = 3, rows = [[1, 5, 3], [4, 2, 0]]\<rparr>"
    by (simp add: get_logits_def ex_model_def)
  have ts: "top_scores [1, 5, 3 :: real] = [5, 3, 1]"
    by (simp add: top_scores_def)
  have am: "argmax [1, 5, 3 :: real] = 1"
    by (simp add: argmax_def argsort_desc_def upt_rec)
  from C7_target_is_runner_up[OF g o, of 0] ts am g show ?thesis by simp
qed

subsection \<open>Top-k accuracy\<close>











end
